theory Spec2Isabelle
  imports Complex_Main "HOL-Library.Sublist"
begin

section \<open>Python values the handler works on\<close>

text \<open>
  The development embeds \<^verbatim>\<open>src/function/api-rdf/handler.py\<close>. A Python \<^verbatim>\<open>str\<close> is a
  \<^typ>\<open>string\<close>, a \<^verbatim>\<open>list\<close> a HOL list, \<^verbatim>\<open>None\<close>-or-value an \<^typ>\<open>'a option\<close>, and
  a raised exception the left injection of a sum.
\<close>

datatype py_error =
    ValueError
  | KeyError
  | AttributeError
  | IndexError
  | ParseError
  | SystemExit

text \<open>
  A Python \<^verbatim>\<open>float\<close>: a finite value, the negative zero, the two infinities or a NaN.
  Its truth value is \<^verbatim>\<open>x != 0.0\<close>, so both zeros are false and a NaN is true.
\<close>

datatype pyfloat = Finite real | NegZero | PosInf | NegInf | NaN

fun float_bool :: "pyfloat \<Rightarrow> bool" where
  "float_bool (Finite r) = (r \<noteq> 0)"
| "float_bool NegZero = False"
| "float_bool PosInf = True"
| "float_bool NegInf = True"
| "float_bool NaN = True"

subsection \<open>String methods\<close>

text \<open>\<^verbatim>\<open>a in b\<close> on two strings: \<open>a\<close> occurs in \<open>b\<close> as a contiguous run.\<close>

definition str_in :: "string \<Rightarrow> string \<Rightarrow> bool" where
  "str_in a b = sublist a b"

text \<open>
  \<^verbatim>\<open>s.replace(old, new)\<close>: the occurrences of \<open>old\<close> are found left to right and do
  not overlap. The counter in \<open>replace_from\<close> is the number of characters of a matched
  occurrence still to be skipped. An empty \<open>old\<close> matches before every character and
  at the end.
\<close>

fun replace_from :: "string \<Rightarrow> string \<Rightarrow> nat \<Rightarrow> string \<Rightarrow> string" where
  "replace_from old new k [] = []"
| "replace_from old new (Suc k) (c # cs) = replace_from old new k cs"
| "replace_from old new 0 (c # cs) =
     (if prefix old (c # cs) then new @ replace_from old new (length old - 1) cs
      else c # replace_from old new 0 cs)"

definition str_replace :: "string \<Rightarrow> string \<Rightarrow> string \<Rightarrow> string" where
  "str_replace s old new =
     (if old = [] then new @ concat (map (\<lambda>c. c # new) s)
      else replace_from old new 0 s)"

text \<open>\<^verbatim>\<open>sep.join(parts)\<close>.\<close>

fun str_join :: "string \<Rightarrow> string list \<Rightarrow> string" where
  "str_join sep [] = []"
| "str_join sep [x] = x"
| "str_join sep (x # y # ys) = x @ sep @ str_join sep (y # ys)"

text \<open>
  \<^verbatim>\<open>s.split(sep)\<close> for a separator of one character: \<open>split_from sep cur s\<close> carries the
  piece read so far.
\<close>

fun split_from :: "char \<Rightarrow> string \<Rightarrow> string \<Rightarrow> string list" where
  "split_from sep cur [] = [cur]"
| "split_from sep cur (c # cs) =
     (if c = sep then cur # split_from sep [] cs else split_from sep (cur @ [c]) cs)"

definition str_split :: "string \<Rightarrow> char \<Rightarrow> string list" where
  "str_split s sep = split_from sep [] s"

text \<open>
  \<^verbatim>\<open>s.splitlines()\<close>: a line ends at a line feed, a carriage return (with the line
  feed that follows it, if any), a vertical tab, a form feed, a file, group or record
  separator or a next-line character; the last line needs no end. Characters are code
  points below 256.
\<close>

fun is_linebreak :: "char \<Rightarrow> bool" where
  "is_linebreak c =
     (c \<in> set [CHR 0x0A, CHR 0x0B, CHR 0x0C, CHR 0x0D, CHR 0x1C, CHR 0x1D, CHR 0x1E, CHR 0x85])"

fun splitlines_from :: "string \<Rightarrow> string \<Rightarrow> string list" where
  "splitlines_from cur [] = (if cur = [] then [] else [cur])"
| "splitlines_from cur [c] = (if is_linebreak c then [cur] else [cur @ [c]])"
| "splitlines_from cur (c # d # cs) =
     (if c = CHR 0x0D \<and> d = CHR 0x0A then cur # splitlines_from [] cs
      else if is_linebreak c then cur # splitlines_from [] (d # cs)
      else splitlines_from (cur @ [c]) (d # cs))"

definition splitlines :: "string \<Rightarrow> string list" where
  "splitlines s = splitlines_from [] s"

text \<open>\<^verbatim>\<open>str(n)\<close> of an integer: decimal digits, a minus sign in front of a negative one.\<close>

fun str_nat :: "nat \<Rightarrow> string" where
  "str_nat n =
     (if n < 10 then [''0123456789'' ! n]
      else str_nat (n div 10) @ [''0123456789'' ! (n mod 10)])"

declare str_nat.simps [simp del]

definition str_int :: "int \<Rightarrow> string" where
  "str_int n = (if n < 0 then CHR ''-'' # str_nat (nat (- n)) else str_nat (nat n))"

section \<open>Constants of the module\<close>

definition RDF_TURTLE_PREFIXES :: "string list" where
  "RDF_TURTLE_PREFIXES =
    [''PREFIX geo: <http://www.opengis.net/ont/geosparql#>'',
     ''PREFIX osmnode: <https://www.openstreetmap.org/node/>'',
     ''PREFIX osmrel: <https://www.openstreetmap.org/relation/>'',
     ''PREFIX osmway: <https://www.openstreetmap.org/way/>'',
     ''PREFIX osmm: <https://example.org/todo-meta/>'',
     ''PREFIX osmt: <https://wiki.openstreetmap.org/wiki/Key:>'',
     ''PREFIX osmx: <https://example.org/todo-xref/>'',
     ''PREFIX wikidata: <http://www.wikidata.org/entity/>'',
     ''PREFIX xsd: <http://www.w3.org/2001/XMLSchema#>'']"

definition OSM_ELEMENT_PREFIX :: "(string \<times> string) list" where
  "OSM_ELEMENT_PREFIX =
    [(''node'', ''osmnode:''),
     (''relation'', ''osmrel:''),
     (''tag'', ''osmt:''),
     (''way'', ''osmway:'')]"

definition OSM_ELEMENT_TYPE_LITERAL :: "(string \<times> string) list" where
  "OSM_ELEMENT_TYPE_LITERAL =
    [(''node'', ''n''),
     (''way'', ''w''),
     (''rel'', ''r'')]"

text \<open>\<^verbatim>\<open>d[k]\<close> on a dictionary raises \<^verbatim>\<open>KeyError\<close> for a key that is not there.\<close>

definition dict_get :: "('k \<rightharpoonup> 'v) \<Rightarrow> 'k \<Rightarrow> py_error + 'v" where
  "dict_get d k = (case d k of None \<Rightarrow> Inl KeyError | Some v \<Rightarrow> Inr v)"

text \<open>\<^verbatim>\<open>xs[n]\<close> on a list or a string raises \<^verbatim>\<open>IndexError\<close> past the end.\<close>

definition list_get :: "'a list \<Rightarrow> nat \<Rightarrow> py_error + 'a" where
  "list_get xs n = (if n < length xs then Inr (xs ! n) else Inl IndexError)"

text \<open>Sequencing: the first exception raised ends the computation.\<close>

definition bind_err :: "py_error + 'a \<Rightarrow> ('a \<Rightarrow> py_error + 'b) \<Rightarrow> py_error + 'b" where
  "bind_err m f = (case m of Inl e \<Rightarrow> Inl e | Inr v \<Rightarrow> f v)"

section \<open>Tag key encoder\<close>

definition osmrdf_tagkey_encode :: "string \<Rightarrow> string" where
  "osmrdf_tagkey_encode raw_tag = str_replace raw_tag '' '' ''%20''"

section \<open>Element filter\<close>

text \<open>
  The two class attributes of \<^verbatim>\<open>OSMElementFilter\<close> start as \<^verbatim>\<open>None\<close>; the setters store a
  list. \<^verbatim>\<open>not self.xml_tags\<close> is true for \<^verbatim>\<open>None\<close> and for the empty list.
\<close>

record OSMElementFilter =
  xml_tags :: "string list option"
  xml_tags_not :: "string list option"

definition OSMElementFilter_init :: "OSMElementFilter" where
  "OSMElementFilter_init = \<lparr>xml_tags = None, xml_tags_not = None\<rparr>"

definition set_filter_xml_tags :: "OSMElementFilter \<Rightarrow> string list \<Rightarrow> OSMElementFilter" where
  "set_filter_xml_tags self tags = self\<lparr>xml_tags := Some tags\<rparr>"

definition set_filter_xml_tags_not :: "OSMElementFilter \<Rightarrow> string list \<Rightarrow> OSMElementFilter" where
  "set_filter_xml_tags_not self tags = self\<lparr>xml_tags_not := Some tags\<rparr>"

fun list_bool :: "'a list option \<Rightarrow> bool" where
  "list_bool None = False"
| "list_bool (Some xs) = (xs \<noteq> [])"

fun list_has :: "'a list option \<Rightarrow> 'a \<Rightarrow> bool" where
  "list_has None x = False"
| "list_has (Some xs) x = (x \<in> set xs)"

definition can_tag :: "OSMElementFilter \<Rightarrow> string \<Rightarrow> bool" where
  "can_tag self tag =
     (if \<not> list_bool (xml_tags self) \<and> \<not> list_bool (xml_tags_not self) then True
      else if (\<not> list_bool (xml_tags self) \<or> list_has (xml_tags self) tag) \<and>
              (\<not> list_bool (xml_tags_not self) \<or> \<not> list_has (xml_tags_not self) tag)
      then True
      else False)"

section \<open>Retagging rule engine\<close>

text \<open>
  One parsed rule is the dictionary \<^verbatim>\<open>{'i', 'op', 'xt', 'xa', 'xack', 'xacv'}\<close> that
  \<^verbatim>\<open>parse_rules\<close> builds: \<open>rule_i\<close> is the rule's position in the file, \<open>rule_op\<close>
  the operation column, \<open>xt\<close> the element names of the second column (\<^verbatim>\<open>None\<close> for
  \<^verbatim>\<open>*\<close>), \<open>xa\<close> the attribute column, \<open>xack\<close> and \<open>xacv\<close> the two sides of
  \<^verbatim>\<open>key=value\<close>.
\<close>

record rule =
  rule_i :: nat
  rule_op :: string
  xt :: "string list option"
  xa :: "string option"
  xack :: string
  xacv :: string

record OSMElementTagger =
  rules :: "rule list option"

type_synonym tags = "(string \<times> string) list"

text \<open>
  One turn of the loop of \<^verbatim>\<open>parse_rules\<close>, on the line \<open>row\<close> at position \<open>index\<close>:
  four tab-separated columns are read (more are ignored), the fourth must split at
  \<^verbatim>\<open>=\<close> into exactly two parts, and the third must not be empty.
\<close>

definition parse_rule_line :: "nat \<Rightarrow> string \<Rightarrow> py_error + rule" where
  "parse_rule_line index row =
     (let line = str_split row (CHR 0x09) in
      bind_err (list_get line 0) (\<lambda>v_op.
      bind_err (list_get line 1) (\<lambda>field1.
      bind_err (list_get line 2) (\<lambda>xml_attrs.
      bind_err (list_get line 3) (\<lambda>field3.
      bind_err (case str_split field3 (CHR ''='') of
                  [k, v] \<Rightarrow> Inr (k, v)
                | _ \<Rightarrow> Inl ValueError) (\<lambda>(xml_c_attr_key, xml_c_attr_value).
      bind_err (list_get (str_split (str_replace (str_replace field1 ''<'' '''') ''>'' '''')
                            (CHR ''|'')) 0) (\<lambda>xml_tag0.
      bind_err (list_get xml_attrs 0) (\<lambda>xml_attrs0.
        Inr \<lparr>rule_i = index,
             rule_op = v_op,
             xt = (if xml_tag0 = ''*'' then None
                   else Some (str_split (str_replace (str_replace field1 ''<'' '''') ''>'' '''')
                                (CHR ''|''))),
             xa = (if xml_attrs0 = CHR ''*'' then None else Some xml_attrs),
             xack = xml_c_attr_key,
             xacv = xml_c_attr_value\<rparr>))))))))"

fun parse_rule_lines :: "nat \<Rightarrow> string list \<Rightarrow> py_error + rule list" where
  "parse_rule_lines index [] = Inr []"
| "parse_rule_lines index (row # rest) =
     bind_err (parse_rule_line index row) (\<lambda>r.
     bind_err (parse_rule_lines (Suc index) rest) (\<lambda>rs. Inr (r # rs)))"

text \<open>
  Every exception inside the \<^verbatim>\<open>try\<close> block ends in \<^verbatim>\<open>sys.exit()\<close>; the rules are stored
  only when there is at least one.
\<close>

definition parse_rules :: "OSMElementTagger \<Rightarrow> string \<Rightarrow> py_error + OSMElementTagger" where
  "parse_rules self rules_tsv =
     (case parse_rule_lines 0 (splitlines rules_tsv) of
        Inl e \<Rightarrow> Inl SystemExit
      | Inr rs \<Rightarrow> Inr (if rs \<noteq> [] then self\<lparr>rules := Some rs\<rparr> else self))"

text \<open>\<^verbatim>\<open>OSMElementTagger.__init__\<close> parses a text that is neither \<^verbatim>\<open>None\<close> nor empty.\<close>

definition OSMElementTagger_init :: "string option \<Rightarrow> py_error + OSMElementTagger" where
  "OSMElementTagger_init rules_tsv =
     (if list_bool rules_tsv then parse_rules \<lparr>rules = None\<rparr> (the rules_tsv)
      else Inr \<lparr>rules = None\<rparr>)"

text \<open>The three rules of the example in the docstring of \<^verbatim>\<open>OSMElementTagger\<close>.\<close>

definition example_rules :: string where
  "example_rules =
     ''+'' @ [CHR 0x09] @ ''<way>'' @ [CHR 0x09] @ ''*'' @ [CHR 0x09] @ ''is_in=BRA'' @ [CHR 0x0A] @
     ''-'' @ [CHR 0x09] @ ''<node>|<way>|<relation>'' @ [CHR 0x09] @ ''*'' @ [CHR 0x09] @
       ''created_by=*'' @ [CHR 0x0A] @
     ''+'' @ [CHR 0x09] @ ''<way>|<relation>'' @ [CHR 0x09] @ ''*'' @ [CHR 0x09] @
       ''shacl:lessThanOrEquals:maxspeed=120''"

text \<open>\<^verbatim>\<open>xs.remove(x)\<close> deletes the first \<open>x\<close> and raises \<^verbatim>\<open>ValueError\<close> when there is none.\<close>

definition list_remove :: "'a list \<Rightarrow> 'a \<Rightarrow> py_error + 'a list" where
  "list_remove xs x = (if x \<in> set xs then Inr (remove1 x xs) else Inl ValueError)"

text \<open>
  The inner loop of \<^verbatim>\<open>retag\<close>, over the pairs of \<^verbatim>\<open>new_tags\<close> that are still to be
  read, with the state \<^verbatim>\<open>(new_tags_temp, left_rules)\<close>. A matching \<^verbatim>\<open>-\<close> rule
  continues with the next pair; a matching \<^verbatim>\<open>+\<close> rule assigns the local
  \<^verbatim>\<open>tag_value\<close> and leaves the loop by \<^verbatim>\<open>break\<close>, before the \<^verbatim>\<open>append\<close> at the
  end of the loop body.
\<close>

fun retag_scan :: "rule \<Rightarrow> tags \<Rightarrow> tags \<Rightarrow> nat list \<Rightarrow> py_error + (tags \<times> nat list)" where
  "retag_scan r [] new_tags_temp left_rules = Inr (new_tags_temp, left_rules)"
| "retag_scan r ((tag_key, tag_value) # rest) new_tags_temp left_rules =
     (if rule_op r = ''-'' \<and> str_in tag_key (xack r) then
        (case list_remove left_rules (rule_i r) of
           Inl e \<Rightarrow> Inl e
         | Inr left_rules' \<Rightarrow> retag_scan r rest new_tags_temp left_rules')
      else if rule_op r = ''+'' \<and> str_in tag_key (xack r) then
        (case list_remove left_rules (rule_i r) of
           Inl e \<Rightarrow> Inl e
         | Inr left_rules' \<Rightarrow> Inr (new_tags_temp, left_rules'))
      else retag_scan r rest (new_tags_temp @ [(tag_key, tag_value)]) left_rules)"

text \<open>
  The loop over the rules. \<^verbatim>\<open>new_tags\<close> is not assigned inside this loop (the
  assignment \<^verbatim>\<open>new_tags = new_tags_temp\<close> stands after it), so every rule reads the
  list \<^verbatim>\<open>retag\<close> was called with; a rule that does not name the element keeps the
  \<^verbatim>\<open>new_tags_temp\<close> of the rule before it.
\<close>

fun retag_rules ::
  "string \<Rightarrow> tags \<Rightarrow> rule list \<Rightarrow> tags \<Rightarrow> nat list \<Rightarrow> py_error + (tags \<times> nat list)" where
  "retag_rules element new_tags [] new_tags_temp left_rules = Inr (new_tags_temp, left_rules)"
| "retag_rules element new_tags (r # rs) new_tags_temp left_rules =
     (if xt r \<noteq> None \<and> \<not> list_has (xt r) element then
        (case list_remove left_rules (rule_i r) of
           Inl e \<Rightarrow> Inl e
         | Inr left_rules' \<Rightarrow> retag_rules element new_tags rs new_tags_temp left_rules')
      else
        (case retag_scan r new_tags [] left_rules of
           Inl e \<Rightarrow> Inl e
         | Inr (new_tags_temp', left_rules') \<Rightarrow>
             retag_rules element new_tags rs new_tags_temp' left_rules'))"

text \<open>The last loop: every index left in \<^verbatim>\<open>left_rules\<close> whose rule is a \<^verbatim>\<open>+\<close> appends its pair.\<close>

fun retag_left :: "rule list \<Rightarrow> nat list \<Rightarrow> tags \<Rightarrow> py_error + tags" where
  "retag_left rs [] new_tags = Inr new_tags"
| "retag_left rs (rule_index # left_rules) new_tags =
     (if rule_index < length rs then
        (if rule_op (rs ! rule_index) = ''+''
         then retag_left rs left_rules
                (new_tags @ [(xack (rs ! rule_index), xacv (rs ! rule_index))])
         else retag_left rs left_rules new_tags)
      else Inl IndexError)"

definition retag :: "OSMElementTagger \<Rightarrow> string \<Rightarrow> tags \<Rightarrow> py_error + tags" where
  "retag self element de_facto_tags =
     (if list_bool (rules self) then
        (case retag_rules element de_facto_tags (the (rules self)) []
                [0 ..< length (the (rules self))] of
           Inl e \<Rightarrow> Inl e
         | Inr (new_tags_temp, left_rules) \<Rightarrow>
             retag_left (the (rules self)) left_rules new_tags_temp)
      else Inr de_facto_tags)"

section \<open>Tag value caster\<close>

record OSMElementTagValueCast =
  cast_rules :: "rule list option"

definition can_cast :: "OSMElementTagValueCast \<Rightarrow> string \<Rightarrow> bool" where
  "can_cast self tagkey = (if tagkey \<in> set [''wikidata''] then True else False)"

definition cast_to_ttl :: "OSMElementTagValueCast \<Rightarrow> string \<Rightarrow> string \<Rightarrow> string" where
  "cast_to_ttl self tagkey tagvalue = ''    osmx:'' @ tagkey @ '' wikidata:'' @ tagvalue @ '' ;''"

section \<open>What the handler takes from Python and its XML library\<close>

text \<open>
  An element of an \<^verbatim>\<open>xml.etree.ElementTree\<close> tree: its tag, its attributes in document
  order and its child elements.
\<close>

datatype xml = Element (xml_tag: string) (xml_attrib: "(string \<times> string) list") (xml_children: "xml list")

text \<open>
  Four functions the handler calls and does not define. They are parameters of the
  model: \<open>fromstring\<close> is \<^verbatim>\<open>xml.etree.ElementTree.fromstring\<close>, \<open>int_of\<close> is \<^verbatim>\<open>int(s)\<close> and
  \<open>float_of\<close> is \<^verbatim>\<open>float(s)\<close> on a string (each \<open>None\<close> where Python raises), and
  \<open>format_float\<close> is the text an f-string gives a float.
\<close>

record externals =
  fromstring :: "string \<Rightarrow> xml option"
  int_of :: "string \<Rightarrow> int option"
  float_of :: "string \<Rightarrow> pyfloat option"
  format_float :: "pyfloat \<Rightarrow> string"

text \<open>\<^verbatim>\<open>conv(meta[k]) if k in meta else None\<close>, where \<open>conv\<close> raises \<^verbatim>\<open>ValueError\<close>.\<close>

definition meta_conv ::
  "(string \<Rightarrow> 'a option) \<Rightarrow> (string \<rightharpoonup> string) \<Rightarrow> string \<Rightarrow> py_error + 'a option" where
  "meta_conv conv meta k =
     (case meta k of
        None \<Rightarrow> Inr None
      | Some s \<Rightarrow> (case conv s of None \<Rightarrow> Inl ValueError | Some v \<Rightarrow> Inr (Some v)))"

section \<open>OSM element model\<close>

type_synonym member = "string \<times> int \<times> string option"

record OSMElement =
  basegroup :: string
  tag :: string
  el_osm_tags :: "tags option"
  el_osm_nds :: "int list option"
  el_osm_members :: "member list option"
  xml_filter :: "OSMElementFilter option"
  tagcaster :: "OSMElementTagValueCast option"
  osm_id :: "int option"
  changeset :: "int option"
  timestamp :: "string option"
  user :: "string option"
  userid :: "int option"
  version :: "string option"
  lat :: "pyfloat option"
  lon :: "pyfloat option"

text \<open>\<^verbatim>\<open>str(self.id)\<close>: the text of \<^verbatim>\<open>None\<close> is \<^verbatim>\<open>None\<close>.\<close>

fun str_opt_int :: "int option \<Rightarrow> string" where
  "str_opt_int None = ''None''"
| "str_opt_int (Some n) = str_int n"

text \<open>
  \<^verbatim>\<open>OSMElement.__init__\<close>. The attributes are read in the order of the source, so the
  first conversion that fails decides the error; the prefix of an unknown tag is a
  \<^verbatim>\<open>KeyError\<close>. The last five arguments default to \<^verbatim>\<open>None\<close>.
\<close>

definition OSMElement_init ::
  "externals \<Rightarrow> string \<Rightarrow> (string \<rightharpoonup> string) \<Rightarrow> tags option \<Rightarrow> int list option \<Rightarrow>
   member list option \<Rightarrow> OSMElementFilter option \<Rightarrow> OSMElementTagValueCast option \<Rightarrow>
   py_error + OSMElement" where
  "OSMElement_init X tg meta xml_tgs xml_nds xml_members xml_filt tagcast =
     bind_err (meta_conv (int_of X) meta ''id'') (\<lambda>v_id.
     bind_err (meta_conv (int_of X) meta ''changeset'') (\<lambda>v_changeset.
     bind_err (meta_conv (int_of X) meta ''uid'') (\<lambda>v_userid.
     bind_err (meta_conv (float_of X) meta ''lat'') (\<lambda>v_lat.
     bind_err (meta_conv (float_of X) meta ''lon'') (\<lambda>v_lon.
     bind_err (dict_get (map_of OSM_ELEMENT_PREFIX) tg) (\<lambda>prefix.
       Inr \<lparr>basegroup = prefix @ str_opt_int v_id,
            tag = tg,
            el_osm_tags = xml_tgs,
            el_osm_nds = xml_nds,
            el_osm_members = xml_members,
            xml_filter = xml_filt,
            tagcaster = tagcast,
            osm_id = v_id,
            changeset = v_changeset,
            timestamp = meta ''timestamp'',
            user = meta ''user'',
            userid = v_userid,
            version = meta ''version'',
            lat = v_lat,
            lon = v_lon\<rparr>))))))"

text \<open>
  \<^verbatim>\<open>can_output\<close> calls \<^verbatim>\<open>can_tag\<close> on \<^verbatim>\<open>self._xml_filter\<close>; on \<^verbatim>\<open>None\<close> the attribute
  lookup raises \<^verbatim>\<open>AttributeError\<close>.
\<close>

definition can_output :: "OSMElement \<Rightarrow> py_error + bool" where
  "can_output self =
     (case xml_filter self of
        None \<Rightarrow> Inl AttributeError
      | Some f \<Rightarrow> (if \<not> can_tag f (tag self) then Inr False else Inr True))"

text \<open>Truth values of the optional attributes, as \<^verbatim>\<open>if self.x:\<close> reads them.\<close>

fun int_bool :: "int option \<Rightarrow> bool" where
  "int_bool None = False"
| "int_bool (Some n) = (n \<noteq> 0)"

fun opt_float_bool :: "pyfloat option \<Rightarrow> bool" where
  "opt_float_bool None = False"
| "opt_float_bool (Some x) = float_bool x"

text \<open>The text of a relation member's role in the f-string: \<^verbatim>\<open>None\<close> for a missing one.\<close>

fun str_opt :: "string option \<Rightarrow> string" where
  "str_opt None = ''None''"
| "str_opt (Some s) = s"

text \<open>The lines of the tag loop of \<^verbatim>\<open>to_ttl\<close>.\<close>

fun ttl_tags :: "OSMElementTagValueCast option \<Rightarrow> tags \<Rightarrow> string list" where
  "ttl_tags caster [] = []"
| "ttl_tags caster ((key, val) # rest) =
     (''    osmt:'' @ osmrdf_tagkey_encode key @ '' \"'' @ val @ ''\" ;'') #
     (if caster \<noteq> None \<and> can_cast (the caster) (osmrdf_tagkey_encode key)
      then [cast_to_ttl (the caster) (osmrdf_tagkey_encode key) val] else []) @
     ttl_tags caster rest"

text \<open>The parts of the member loop; a member type without a prefix is a \<^verbatim>\<open>KeyError\<close>.\<close>

fun ttl_members :: "member list \<Rightarrow> py_error + string list" where
  "ttl_members [] = Inr []"
| "ttl_members ((m_type, m_ref, m_role) # rest) =
     bind_err (dict_get (map_of OSM_ELEMENT_PREFIX) m_type) (\<lambda>prefix.
     bind_err (ttl_members rest) (\<lambda>parts.
       Inr ((''[osmx:hasrole'' @ str_opt m_role @ '' '' @ prefix @ str_int m_ref @ '']'') # parts)))"

definition to_ttl :: "externals \<Rightarrow> OSMElement \<Rightarrow> py_error + string list" where
  "to_ttl X self =
     bind_err (if list_bool (el_osm_members self)
               then bind_err (ttl_members (the (el_osm_members self))) (\<lambda>parts.
                      Inr [''    osmx:hasmembers ('' @ str_join '' '' parts @ '') ;''])
               else Inr []) (\<lambda>member_lines.
       Inr ([basegroup self] @
            (if int_bool (changeset self)
             then [''    osmm:changeset '' @ str_int (the (changeset self)) @ '' ;''] else []) @
            (if opt_float_bool (lat self) \<and> opt_float_bool (lon self)
             then [''    osmm:loc \"Point('' @ format_float X (the (lat self)) @ '' '' @
                   format_float X (the (lon self)) @ '')\"^^geo:wktLiteral ;''] else []) @
            (if list_bool (timestamp self)
             then [''    osmm:timestamp \"'' @ the (timestamp self) @ ''\"^^xsd:dateTime ;''] else []) @
            (if tag self \<in> dom (map_of OSM_ELEMENT_TYPE_LITERAL)
             then [''    osmm:type \"'' @ the (map_of OSM_ELEMENT_TYPE_LITERAL (tag self)) @ ''\" ;'']
             else []) @
            (if list_bool (user self)
             then [''    osmm:user \"'' @ the (user self) @ ''\" ;''] else []) @
            (if int_bool (userid self)
             then [''    osmm:userid '' @ str_int (the (userid self)) @ '' ;''] else []) @
            (if list_bool (version self)
             then [''    osmm:version '' @ the (version self) @ '' ;''] else []) @
            (if list_bool (el_osm_tags self)
             then ttl_tags (tagcaster self) (the (el_osm_tags self)) else []) @
            (if list_bool (el_osm_nds self)
             then [''    osmx:hasnodes ('' @
                   str_join '' '' (map (\<lambda>ref. ''osmnode:'' @ str_int ref) (the (el_osm_nds self))) @
                   '') ;''] else []) @
            member_lines @
            [''.'']))"

section \<open>Single-element XML consumer\<close>

record OSMApiv06Xml =
  xmlroot :: xml
  root_tag :: string
  root_attrib :: "(string \<times> string) list"

definition OSMApiv06Xml_init :: "externals \<Rightarrow> string \<Rightarrow> py_error + OSMApiv06Xml" where
  "OSMApiv06Xml_init X file_or_string =
     (case fromstring X file_or_string of
        None \<Rightarrow> Inl ParseError
      | Some xroot \<Rightarrow>
          Inr \<lparr>xmlroot = xroot, root_tag = xml_tag xroot, root_attrib = xml_attrib xroot\<rparr>)"

text \<open>\<^verbatim>\<open>child.findall(name)\<close>: the direct children with that tag, in document order.\<close>

definition findall :: "xml \<Rightarrow> string \<Rightarrow> xml list" where
  "findall el name = filter (\<lambda>c. xml_tag c = name) (xml_children el)"

text \<open>The three loops of \<^verbatim>\<open>node\<close> that read the children of the element.\<close>

fun read_tags :: "xml list \<Rightarrow> py_error + tags" where
  "read_tags [] = Inr []"
| "read_tags (item # rest) =
     bind_err (dict_get (map_of (xml_attrib item)) ''k'') (\<lambda>k.
     bind_err (dict_get (map_of (xml_attrib item)) ''v'') (\<lambda>v.
     bind_err (read_tags rest) (\<lambda>more. Inr ((k, v) # more))))"

fun read_nds :: "externals \<Rightarrow> xml list \<Rightarrow> py_error + int list" where
  "read_nds X [] = Inr []"
| "read_nds X (item # rest) =
     bind_err (dict_get (map_of (xml_attrib item)) ''ref'') (\<lambda>s.
     bind_err (case int_of X s of None \<Rightarrow> Inl ValueError | Some n \<Rightarrow> Inr n) (\<lambda>n.
     bind_err (read_nds X rest) (\<lambda>more. Inr (n # more))))"

fun read_members :: "externals \<Rightarrow> xml list \<Rightarrow> py_error + member list" where
  "read_members X [] = Inr []"
| "read_members X (item # rest) =
     bind_err (dict_get (map_of (xml_attrib item)) ''type'') (\<lambda>m_type.
     bind_err (dict_get (map_of (xml_attrib item)) ''ref'') (\<lambda>s.
     bind_err (case int_of X s of None \<Rightarrow> Inl ValueError | Some n \<Rightarrow> Inr n) (\<lambda>m_ref.
     bind_err (read_members X rest) (\<lambda>more.
       Inr ((m_type, m_ref, map_of (xml_attrib item) ''role'') # more)))))"

text \<open>A list that stays \<^verbatim>\<open>None\<close> when \<^verbatim>\<open>findall\<close> found nothing.\<close>

definition none_if_empty :: "xml list \<Rightarrow> (xml list \<Rightarrow> py_error + 'a list) \<Rightarrow> py_error + 'a list option" where
  "none_if_empty items rd =
     (if items = [] then Inr None else bind_err (rd items) (\<lambda>xs. Inr (Some xs)))"

text \<open>
  \<^verbatim>\<open>OSMApiv06Xml.node\<close> returns inside the first turn of its loop over the children of
  the root, and returns \<^verbatim>\<open>None\<close> when the root has no child.
\<close>

definition node :: "externals \<Rightarrow> OSMApiv06Xml \<Rightarrow> py_error + OSMElement option" where
  "node X self =
     (case xml_children (xmlroot self) of
        [] \<Rightarrow> Inr None
      | child # others \<Rightarrow>
          bind_err (none_if_empty (findall child ''tag'') read_tags) (\<lambda>xml_tgs.
          bind_err (none_if_empty (findall child ''nd'') (read_nds X)) (\<lambda>xml_nds.
          bind_err (none_if_empty (findall child ''member'') (read_members X)) (\<lambda>xml_members.
          bind_err (OSMElement_init X (xml_tag child) (map_of (xml_attrib child))
                      xml_tgs xml_nds xml_members None None) (\<lambda>el.
            Inr (Some el))))))"

section \<open>Turtle document assembler\<close>

text \<open>
  The common part of the three single-element conversions: parse, take the first
  element, and collect the prefix lines, an empty line, the element's block and an
  empty line. \<^verbatim>\<open>osmnode.to_ttl()\<close> on \<^verbatim>\<open>None\<close> is an \<^verbatim>\<open>AttributeError\<close>.
\<close>

definition xml2ttl_output :: "externals \<Rightarrow> string \<Rightarrow> py_error + string list" where
  "xml2ttl_output X data_xml =
     bind_err (OSMApiv06Xml_init X data_xml) (\<lambda>osmx.
     bind_err (node X osmx) (\<lambda>osmnode.
     bind_err (case osmnode of None \<Rightarrow> Inl AttributeError | Some el \<Rightarrow> to_ttl X el) (\<lambda>ttl.
       Inr (RDF_TURTLE_PREFIXES @ [''''] @ ttl @ ['''']))))"

definition osmrdf_node_xml2ttl :: "externals \<Rightarrow> string \<Rightarrow> py_error + string" where
  "osmrdf_node_xml2ttl X data_xml =
     bind_err (xml2ttl_output X data_xml) (\<lambda>output.
       Inr (str_join [CHR 0x0A] output))"

definition osmrdf_way_xml2ttl :: "externals \<Rightarrow> string \<Rightarrow> py_error + string" where
  "osmrdf_way_xml2ttl X data_xml =
     bind_err (xml2ttl_output X data_xml) (\<lambda>output.
       Inr (str_join [CHR 0x0A] output))"

text \<open>
  In the relation conversion the two lines under the \<^verbatim>\<open>DEBUG\<close> remark are live: the
  input, every line behind \<^verbatim>\<open>#\<close>, is one more entry of the output.
\<close>

definition osmrdf_relation_xml2ttl :: "externals \<Rightarrow> string \<Rightarrow> py_error + string" where
  "osmrdf_relation_xml2ttl X data_xml =
     bind_err (xml2ttl_output X data_xml) (\<lambda>output.
       Inr (str_join [CHR 0x0A]
              (output @ [''# '' @ str_join ([CHR 0x0A] @ ''# '') (str_split data_xml (CHR 0x0A))])))"

section \<open>A fixed extract of the external functions\<close>

text \<open>
  The worked examples below run the handler on four small documents. This extract
  lists, for the strings those runs read, what CPython and \<^verbatim>\<open>ElementTree\<close> return:
  the parsed trees, \<^verbatim>\<open>int('1')\<close>, \<^verbatim>\<open>float('0.0')\<close>, \<^verbatim>\<open>float('1.0')\<close>, \<^verbatim>\<open>float('2.0')\<close>
  and the f-string texts of these three floats. Nothing is read outside the lists.
\<close>

definition sample_externals :: externals where
  "sample_externals =
     \<lparr>fromstring = map_of
        [(''<osm><relation id=\"1\"/></osm>'',
            Element ''osm'' [] [Element ''relation'' [(''id'', ''1'')] []]),
         (''<osm><way id=\"1\"/></osm>'',
            Element ''osm'' [] [Element ''way'' [(''id'', ''1'')] []]),
         (''<osm><node id=\"1\" lat=\"0.0\" lon=\"2.0\"/></osm>'',
            Element ''osm'' []
              [Element ''node'' [(''id'', ''1''), (''lat'', ''0.0''), (''lon'', ''2.0'')] []]),
         (''<osm><node id=\"1\" lat=\"1.0\" lon=\"2.0\"/></osm>'',
            Element ''osm'' []
              [Element ''node'' [(''id'', ''1''), (''lat'', ''1.0''), (''lon'', ''2.0'')] []]),
         (''<osm><node/></osm>'', Element ''osm'' [] [Element ''node'' [] []])],
      int_of = map_of [(''1'', 1)],
      float_of = map_of [(''0.0'', Finite 0), (''1.0'', Finite 1), (''2.0'', Finite 2)],
      format_float = (\<lambda>x. the (map_of
        [(Finite 0, ''0.0''), (Finite 1, ''1.0''), (Finite 2, ''2.0'')] x))\<rparr>"

section \<open>Properties of the tag key encoder\<close>

lemma replace_from_space:
  "replace_from '' '' ''%20'' 0 s = concat (map (\<lambda>c. if c = CHR '' '' then ''%20'' else [c]) s)"
  by (induction s) auto

lemma encode_concat:
  "osmrdf_tagkey_encode s = concat (map (\<lambda>c. if c = CHR '' '' then ''%20'' else [c]) s)"
  by (simp add: osmrdf_tagkey_encode_def str_replace_def replace_from_space)

lemma encode_no_space: "CHR '' '' \<notin> set (osmrdf_tagkey_encode s)"
  by (induction s) (auto simp: encode_concat)

lemma encode_fixed: "CHR '' '' \<notin> set s \<Longrightarrow> osmrdf_tagkey_encode s = s"
  by (induction s) (auto simp: encode_concat)

text \<open>
  Claim C8. The encoder writes \<^verbatim>\<open>%20\<close> for every space and copies every other
  character, the colon included; \<^verbatim>\<open>encode(" a b ")\<close> is \<^verbatim>\<open>%20a%20b%20\<close>; and encoding
  twice is encoding once, for every string, since the three characters written for a
  space are not spaces.
\<close>

theorem encode_spec:
  "osmrdf_tagkey_encode x = concat (map (\<lambda>c. if c = CHR '' '' then ''%20'' else [c]) x) \<and>
   osmrdf_tagkey_encode '' a b '' = ''%20a%20b%20'' \<and>
   osmrdf_tagkey_encode (osmrdf_tagkey_encode x) = osmrdf_tagkey_encode x"
proof (intro conjI)
  show "osmrdf_tagkey_encode x = concat (map (\<lambda>c. if c = CHR '' '' then ''%20'' else [c]) x)"
    by (rule encode_concat)
  show "osmrdf_tagkey_encode '' a b '' = ''%20a%20b%20''"
    by (simp add: osmrdf_tagkey_encode_def str_replace_def)
  show "osmrdf_tagkey_encode (osmrdf_tagkey_encode x) = osmrdf_tagkey_encode x"
    by (rule encode_fixed [OF encode_no_space])
qed

section \<open>Properties of the element filter\<close>

text \<open>
  Claim C9. With the allow-list \<open>a\<close> and the deny-list \<open>d\<close> (each \<^verbatim>\<open>None\<close> until its
  setter is called): \<^verbatim>\<open>can_tag\<close> is true when neither is configured; in general it is
  true exactly when (the allow-list is unset or empty, or names the kind) and (the
  deny-list is unset or empty, or does not name the kind); so a kind on the deny-list
  is refused whatever the allow-list holds.
\<close>

theorem can_tag_spec:
  "(a = None \<and> d = None \<longrightarrow> can_tag \<lparr>xml_tags = a, xml_tags_not = d\<rparr> k) \<and>
   (can_tag \<lparr>xml_tags = a, xml_tags_not = d\<rparr> k \<longleftrightarrow>
      (a \<in> {None, Some []} \<or> k \<in> set (the a)) \<and> (d \<in> {None, Some []} \<or> k \<notin> set (the d))) \<and>
   (d \<noteq> None \<and> k \<in> set (the d) \<longrightarrow> \<not> can_tag \<lparr>xml_tags = a, xml_tags_not = d\<rparr> k)"
  by (cases a; cases d) (auto simp: can_tag_def)

theorem can_tag_spec_witness:
  "can_tag \<lparr>xml_tags = None, xml_tags_not = None\<rparr> ''node'' \<and>
   can_tag \<lparr>xml_tags = Some [''way''], xml_tags_not = Some [''node'']\<rparr> ''way'' \<and>
   \<not> can_tag \<lparr>xml_tags = Some [''way'', ''node''], xml_tags_not = Some [''node'']\<rparr> ''node''"
  using can_tag_spec [of None None "''node''"]
    can_tag_spec [of "Some [''way'']" "Some [''node'']" "''way''"]
    can_tag_spec [of "Some [''way'', ''node'']" "Some [''node'']" "''node''"]
  by simp

section \<open>Properties of the retagging rule engine\<close>

text \<open>A sequence of steps returns a value only when every step does.\<close>

lemma bind_err_Inr: "(bind_err m f = Inr y) = (\<exists>v. m = Inr v \<and> f v = Inr y)"
  by (cases m) (simp_all add: bind_err_def)

text \<open>
  The docstring's rules parse to three dictionaries, and the rules \<^verbatim>\<open>parse_rules\<close> stores
  always carry their positions \<open>0, 1, ...\<close> as \<open>rule_i\<close>: the single rule of an engine
  has index 0.
\<close>

lemma parse_example_rules: "OSMElementTagger_init (Some example_rules) =
  Inr \<lparr>rules = Some
    [\<lparr>rule_i = 0, rule_op = ''+'', xt = Some [''way''], xa = None, xack = ''is_in'', xacv = ''BRA''\<rparr>,
     \<lparr>rule_i = 1, rule_op = ''-'', xt = Some [''node'', ''way'', ''relation''], xa = None,
        xack = ''created_by'', xacv = ''*''\<rparr>,
     \<lparr>rule_i = 2, rule_op = ''+'', xt = Some [''way'', ''relation''], xa = None,
        xack = ''shacl:lessThanOrEquals:maxspeed'', xacv = ''120''\<rparr>]\<rparr>"
  by (simp add: OSMElementTagger_init_def parse_rules_def splitlines_def example_rules_def
      parse_rule_line_def str_split_def list_get_def bind_err_def str_replace_def)

lemma parse_rule_line_index: "parse_rule_line n row = Inr r \<Longrightarrow> rule_i r = n"
  unfolding parse_rule_line_def Let_def
  by (auto simp: bind_err_def split: sum.splits prod.splits list.splits if_splits)

lemma parse_rule_lines_indices:
  "parse_rule_lines n rows = Inr rs \<Longrightarrow> map rule_i rs = [n ..< n + length rs]"
proof (induction rows arbitrary: n rs)
  case Nil
  then show ?case by simp
next
  case (Cons row rest)
  from Cons.prems obtain r rs' where
    r: "parse_rule_line n row = Inr r" and
    rest: "parse_rule_lines (Suc n) rest = Inr rs'" and
    rs: "rs = r # rs'"
    by (auto simp: bind_err_Inr)
  from Cons.IH [OF rest] parse_rule_line_index [OF r] rs show ?case
    by (simp add: upt_rec)
qed

lemma parse_rules_indices:
  assumes "OSMElementTagger_init (Some rules_tsv) = Inr T" and "rules T = Some rs"
  shows "map rule_i rs = [0 ..< length rs]"
proof -
  from assms obtain rs' where p: "parse_rule_lines 0 (splitlines rules_tsv) = Inr rs'"
    and T: "T = (if rs' \<noteq> [] then \<lparr>rules = Some rs'\<rparr> else \<lparr>rules = None\<rparr>)"
    by (auto simp: OSMElementTagger_init_def parse_rules_def split: if_splits sum.splits)
  with assms(2) have "rs' = rs" by (auto split: if_splits)
  with parse_rule_lines_indices [OF p] show ?thesis by simp
qed

text \<open>A scan in which no key matches copies every pair and leaves the indices alone.\<close>

lemma retag_scan_no_match:
  "\<forall>(k, v) \<in> set tgs. \<not> str_in k (xack r) \<Longrightarrow>
   retag_scan r tgs temp left = Inr (temp @ tgs, left)"
  by (induction tgs arbitrary: temp) auto

text \<open>
  A \<^verbatim>\<open>-\<close> rule whose index is still listed, on a list with at most one matching
  pair: the matching pair is dropped and the index is removed with it.
\<close>

lemma retag_scan_remove_once:
  assumes "rule_op r = ''-''" and "rule_i r \<in> set left"
    and "length (filter (\<lambda>(k, v). str_in k (xack r)) tgs) \<le> 1"
  shows "retag_scan r tgs temp left =
         Inr (temp @ filter (\<lambda>(k, v). \<not> str_in k (xack r)) tgs,
              if \<exists>(k, v) \<in> set tgs. str_in k (xack r) then remove1 (rule_i r) left else left)"
  using assms(3)
proof (induction tgs arbitrary: temp)
  case Nil
  then show ?case by simp
next
  case (Cons kv rest)
  obtain k v where kv: "kv = (k, v)" by (cases kv)
  show ?case
  proof (cases "str_in k (xack r)")
    case True
    with Cons.prems kv have none: "filter (\<lambda>(k, v). str_in k (xack r)) rest = []"
      by simp
    then have no: "\<forall>(k, v) \<in> set rest. \<not> str_in k (xack r)"
      by (auto simp: filter_empty_conv)
    then have keep: "filter (\<lambda>(k, v). \<not> str_in k (xack r)) rest = rest"
      by (auto simp: filter_id_conv)
    show ?thesis
      using True kv assms(1,2) keep
      by (simp add: list_remove_def retag_scan_no_match [OF no])
  next
    case False
    with Cons.prems kv have "length (filter (\<lambda>(k, v). str_in k (xack r)) rest) \<le> 1"
      by simp
    from Cons.IH [OF this] False kv show ?thesis
      by simp
  qed
qed

lemma retag_rules_targeted:
  "xt r = None \<or> element \<in> set (the (xt r)) \<Longrightarrow>
   retag_rules element tgs [r] temp left = retag_scan r tgs [] left"
  by (cases "xt r") (auto split: sum.splits)

text \<open>
  Claim C1, as amended. The engine holds one \<^verbatim>\<open>-\<close> rule (index 0, as
  \<^verbatim>\<open>parse_rules\<close> numbers it) that targets the element kind: every kind when its
  element column is \<^verbatim>\<open>*\<close>, the listed kinds otherwise. When at most one pair of the
  input has a key that occurs inside the rule's key (the test is
  \<^verbatim>\<open>tag_key in rule['xack']\<close>: the tag's key is looked for in the rule's key),
  \<^verbatim>\<open>retag\<close> returns the input without that pair and with every other pair in place.
\<close>

theorem retag_remove_single:
  assumes "rule_op r = ''-''" and "rule_i r = 0"
    and "xt r = None \<or> element \<in> set (the (xt r))"
    and "length (filter (\<lambda>(k, v). sublist k (xack r)) tgs) \<le> 1"
  shows "retag \<lparr>rules = Some [r]\<rparr> element tgs =
         Inr (filter (\<lambda>(k, v). \<not> sublist k (xack r)) tgs)"
proof -
  have one: "length (filter (\<lambda>(k, v). str_in k (xack r)) tgs) \<le> 1"
    using assms(4) by (simp add: str_in_def)
  have scan: "retag_scan r tgs [] [0] =
         Inr (filter (\<lambda>(k, v). \<not> str_in k (xack r)) tgs,
              if \<exists>(k, v) \<in> set tgs. str_in k (xack r) then [] else [0])"
    using retag_scan_remove_once [OF assms(1) _ one, of "[0]" "[]"] assms(2) by simp
  have run: "retag_rules element tgs [r] [] [0] =
         Inr (filter (\<lambda>(k, v). \<not> str_in k (xack r)) tgs,
              if \<exists>(k, v) \<in> set tgs. str_in k (xack r) then [] else [0])"
    using scan by (simp only: retag_rules_targeted [OF assms(3)])
  show ?thesis
    using assms(1) by (simp add: retag_def run str_in_def del: retag_rules.simps)
qed

theorem retag_remove_single_witness:
  "length (filter (\<lambda>(k, v). sublist k ''created_by'')
             [(''highway'', ''primary''), (''created_by'', ''JOSM'')]) \<le> 1 \<and>
   retag \<lparr>rules = Some [\<lparr>rule_i = 0, rule_op = ''-'', xt = Some [''node'', ''way'', ''relation''],
                          xa = None, xack = ''created_by'', xacv = ''*''\<rparr>]\<rparr>
     ''way'' [(''highway'', ''primary''), (''created_by'', ''JOSM'')] =
   Inr [(''highway'', ''primary'')]"
proof -
  have h: "length (filter (\<lambda>(k, v). sublist k ''created_by'')
             [(''highway'', ''primary''), (''created_by'', ''JOSM'')]) \<le> 1"
    by (simp add: sublist_Cons_right)
  show ?thesis
    using h retag_remove_single [of "\<lparr>rule_i = 0, rule_op = ''-'',
        xt = Some [''node'', ''way'', ''relation''], xa = None, xack = ''created_by'',
        xacv = ''*''\<rparr>" "''way''" "[(''highway'', ''primary''), (''created_by'', ''JOSM'')]"]
    by (simp add: sublist_Cons_right)
qed

text \<open>
  Claim C1 as stated fails: the key \<^verbatim>\<open>created_by_x\<close> contains the rule's key
  \<^verbatim>\<open>created_by\<close> and its pair is kept, and the key \<^verbatim>\<open>by\<close> does not contain the rule's
  key and its pair is removed.
\<close>

theorem retag_remove_containment_counterexample:
  "sublist ''created_by'' ''created_by_x'' \<and>
   retag \<lparr>rules = Some [\<lparr>rule_i = 0, rule_op = ''-'', xt = None, xa = None,
                          xack = ''created_by'', xacv = ''*''\<rparr>]\<rparr>
     ''node'' [(''created_by_x'', ''1'')] = Inr [(''created_by_x'', ''1'')] \<and>
   \<not> sublist ''created_by'' ''by'' \<and>
   retag \<lparr>rules = Some [\<lparr>rule_i = 0, rule_op = ''-'', xt = None, xa = None,
                          xack = ''created_by'', xacv = ''*''\<rparr>]\<rparr>
     ''node'' [(''by'', ''1'')] = Inr []"
  by (simp add: retag_def list_remove_def str_in_def sublist_Cons_right)

text \<open>
  Claim C2, as amended. The engine holds one \<^verbatim>\<open>+\<close> rule (index 0) that targets the
  element kind. When no pair of the input has a key that occurs inside the rule's key
  (so, in particular, the rule's key itself is absent), \<^verbatim>\<open>retag\<close> returns the input
  with exactly one pair appended, the rule's key and value.
\<close>

theorem retag_add_single:
  assumes "rule_op r = ''+''" and "rule_i r = 0"
    and "xt r = None \<or> element \<in> set (the (xt r))"
    and "\<forall>(k, v) \<in> set tgs. \<not> sublist k (xack r)"
  shows "retag \<lparr>rules = Some [r]\<rparr> element tgs = Inr (tgs @ [(xack r, xacv r)])"
proof -
  have no: "\<forall>(k, v) \<in> set tgs. \<not> str_in k (xack r)"
    using assms(4) by (simp add: str_in_def)
  have run: "retag_rules element tgs [r] [] [0] = Inr (tgs, [0])"
    using retag_scan_no_match [OF no, of "[]" "[0]"]
    by (simp only: retag_rules_targeted [OF assms(3)] append_Nil)
  show ?thesis
    using assms(1) by (simp add: retag_def run del: retag_rules.simps)
qed

theorem retag_add_single_witness:
  "\<not> sublist ''highway'' ''is_in'' \<and>
   retag \<lparr>rules = Some [\<lparr>rule_i = 0, rule_op = ''+'', xt = Some [''way''], xa = None,
                          xack = ''is_in'', xacv = ''BRA''\<rparr>]\<rparr>
     ''way'' [(''highway'', ''primary'')] =
   Inr [(''highway'', ''primary''), (''is_in'', ''BRA'')]"
proof -
  have h: "\<forall>(k, v) \<in> set [(''highway'', ''primary'')]. \<not> sublist k ''is_in''"
    by (simp add: sublist_Cons_right)
  show ?thesis
    using h retag_add_single [of "\<lparr>rule_i = 0, rule_op = ''+'', xt = Some [''way''], xa = None,
        xack = ''is_in'', xacv = ''BRA''\<rparr>" "''way''" "[(''highway'', ''primary'')]"]
    by (simp add: sublist_Cons_right)
qed

text \<open>
  Claim C2 as stated fails twice. The key \<^verbatim>\<open>is_in\<close> is absent from the input
  \<^verbatim>\<open>[('in', 'x')]\<close> and the rule targets ways, yet the result for a way is the empty
  list, not the input with one pair more: \<^verbatim>\<open>in\<close> occurs inside \<^verbatim>\<open>is_in\<close>. And for a
  node, which the rule does not target, the result is the empty list, not the input.
\<close>

theorem retag_add_absent_counterexample:
  "''is_in'' \<notin> fst ` set [(''in'', ''x'')] \<and>
   retag \<lparr>rules = Some [\<lparr>rule_i = 0, rule_op = ''+'', xt = Some [''way''], xa = None,
                          xack = ''is_in'', xacv = ''BRA''\<rparr>]\<rparr>
     ''way'' [(''in'', ''x'')] = Inr [] \<and>
   retag \<lparr>rules = Some [\<lparr>rule_i = 0, rule_op = ''+'', xt = Some [''way''], xa = None,
                          xack = ''is_in'', xacv = ''BRA''\<rparr>]\<rparr>
     ''node'' [(''name'', ''x'')] = Inr []"
  by (simp add: retag_def list_remove_def str_in_def sublist_Cons_right)

text \<open>
  What the single-rule engine does outside the two theorems above: a rule that does
  not target the element leaves the empty list; a \<^verbatim>\<open>+\<close> rule that matches keeps only
  the pairs before the first match; a \<^verbatim>\<open>-\<close> rule that matches twice removes its index
  from \<^verbatim>\<open>left_rules\<close> a second time, a \<^verbatim>\<open>ValueError\<close>.
\<close>

lemma retag_untargeted_single:
  assumes "rule_i r = 0" and "xt r = Some kinds" and "element \<notin> set kinds"
  shows "retag \<lparr>rules = Some [r]\<rparr> element tgs = Inr []"
  using assms by (simp add: retag_def list_remove_def)

lemma retag_scan_add_match:
  assumes "rule_op r = ''+''" and "rule_i r \<in> set left"
    and "\<exists>(k, v) \<in> set tgs. str_in k (xack r)"
  shows "retag_scan r tgs temp left =
         Inr (temp @ takeWhile (\<lambda>(k, v). \<not> str_in k (xack r)) tgs, remove1 (rule_i r) left)"
  using assms(3)
proof (induction tgs arbitrary: temp)
  case Nil
  then show ?case by simp
next
  case (Cons kv rest)
  obtain k v where kv: "kv = (k, v)" by (cases kv)
  show ?case
  proof (cases "str_in k (xack r)")
    case True
    with kv assms(1,2) show ?thesis by (simp add: list_remove_def)
  next
    case False
    with Cons.prems kv have "\<exists>(k, v) \<in> set rest. str_in k (xack r)" by simp
    from Cons.IH [OF this] False kv assms(1) show ?thesis by simp
  qed
qed

lemma retag_add_match_single:
  assumes "rule_op r = ''+''" and "rule_i r = 0"
    and "xt r = None \<or> element \<in> set (the (xt r))"
    and "\<exists>(k, v) \<in> set tgs. sublist k (xack r)"
  shows "retag \<lparr>rules = Some [r]\<rparr> element tgs =
         Inr (takeWhile (\<lambda>(k, v). \<not> sublist k (xack r)) tgs)"
proof -
  have m: "\<exists>(k, v) \<in> set tgs. str_in k (xack r)"
    using assms(4) by (simp add: str_in_def)
  have run: "retag_rules element tgs [r] [] [0] =
         Inr (takeWhile (\<lambda>(k, v). \<not> str_in k (xack r)) tgs, [])"
    using retag_scan_add_match [OF assms(1) _ m, of "[0]" "[]"] assms(2)
    by (simp add: retag_rules_targeted [OF assms(3)] del: retag_rules.simps)
  show ?thesis
    by (simp add: retag_def run str_in_def del: retag_rules.simps)
qed

lemma retag_scan_remove_gone:
  assumes "rule_op r = ''-''" and "rule_i r \<notin> set left"
    and "\<exists>(k, v) \<in> set tgs. str_in k (xack r)"
  shows "retag_scan r tgs temp left = Inl ValueError"
  using assms(3)
proof (induction tgs arbitrary: temp)
  case Nil
  then show ?case by simp
next
  case (Cons kv rest)
  obtain k v where kv: "kv = (k, v)" by (cases kv)
  show ?case
  proof (cases "str_in k (xack r)")
    case True
    with kv assms(1,2) show ?thesis by (simp add: list_remove_def)
  next
    case False
    with Cons.prems kv have "\<exists>(k, v) \<in> set rest. str_in k (xack r)" by simp
    from Cons.IH [OF this] False kv assms(1) show ?thesis by simp
  qed
qed

lemma retag_scan_remove_twice:
  assumes "rule_op r = ''-''"
    and "2 \<le> length (filter (\<lambda>(k, v). str_in k (xack r)) tgs)"
  shows "retag_scan r tgs temp [rule_i r] = Inl ValueError"
  using assms(2)
proof (induction tgs arbitrary: temp)
  case Nil
  then show ?case by simp
next
  case (Cons kv rest)
  obtain k v where kv: "kv = (k, v)" by (cases kv)
  show ?case
  proof (cases "str_in k (xack r)")
    case True
    with Cons.prems kv have "filter (\<lambda>(k, v). str_in k (xack r)) rest \<noteq> []"
      by auto
    then have "\<exists>(k, v) \<in> set rest. str_in k (xack r)"
      by (auto simp: filter_empty_conv)
    from retag_scan_remove_gone [OF assms(1) _ this, of "[]" temp] True kv assms(1)
    show ?thesis by (simp add: list_remove_def)
  next
    case False
    with Cons.prems kv have "2 \<le> length (filter (\<lambda>(k, v). str_in k (xack r)) rest)"
      by simp
    from Cons.IH [OF this] False kv assms(1) show ?thesis by simp
  qed
qed

lemma retag_remove_twice_single:
  assumes "rule_op r = ''-''" and "rule_i r = 0"
    and "xt r = None \<or> element \<in> set (the (xt r))"
    and "2 \<le> length (filter (\<lambda>(k, v). sublist k (xack r)) tgs)"
  shows "retag \<lparr>rules = Some [r]\<rparr> element tgs = Inl ValueError"
proof -
  have two: "2 \<le> length (filter (\<lambda>(k, v). str_in k (xack r)) tgs)"
    using assms(4) by (simp add: str_in_def)
  have run: "retag_rules element tgs [r] [] [0] = Inl ValueError"
    using retag_scan_remove_twice [OF assms(1) two, of "[]"] assms(2)
    by (simp add: retag_rules_targeted [OF assms(3)] del: retag_rules.simps)
  show ?thesis
    by (simp add: retag_def run del: retag_rules.simps)
qed

text \<open>
  Claim C3, at two inputs where the code leaves it. A \<^verbatim>\<open>+\<close> rule for \<^verbatim>\<open>maxspeed\<close> on
  a list that holds \<^verbatim>\<open>maxspeed\<close>: the loop breaks before the pair is appended, so the
  matched pair and every pair after it are lost. And a \<^verbatim>\<open>-\<close> rule followed by a \<^verbatim>\<open>+\<close>
  rule: the second rule scans the input again, not the first rule's result, so the
  removed pair is back.
\<close>

theorem retag_add_match_truncates:
  "retag \<lparr>rules = Some [\<lparr>rule_i = 0, rule_op = ''+'', xt = None, xa = None,
                          xack = ''maxspeed'', xacv = ''120''\<rparr>]\<rparr>
     ''way'' [(''highway'', ''primary''), (''maxspeed'', ''50''), (''name'', ''A'')] =
   Inr [(''highway'', ''primary'')] \<and>
   retag \<lparr>rules = Some [\<lparr>rule_i = 0, rule_op = ''-'', xt = None, xa = None,
                          xack = ''created_by'', xacv = ''*''\<rparr>,
                        \<lparr>rule_i = 1, rule_op = ''+'', xt = None, xa = None,
                          xack = ''is_in'', xacv = ''BRA''\<rparr>]\<rparr>
     ''way'' [(''created_by'', ''JOSM'')] =
   Inr [(''created_by'', ''JOSM''), (''is_in'', ''BRA'')]"
  by (simp add: retag_def list_remove_def str_in_def sublist_Cons_right)

section \<open>Properties of the element model and the document assembler\<close>

text \<open>The definitions a run of the handler on a given document unfolds.\<close>

lemmas run_simps =
  sample_externals_def OSMElement_init_def bind_err_def meta_conv_def dict_get_def
  OSM_ELEMENT_PREFIX_def OSM_ELEMENT_TYPE_LITERAL_def to_ttl_def str_int_def str_nat.simps
  node_def OSMApiv06Xml_init_def none_if_empty_def findall_def xml2ttl_output_def
  osmrdf_node_xml2ttl_def osmrdf_way_xml2ttl_def osmrdf_relation_xml2ttl_def str_split_def

text \<open>What a successful construction says about the fields of the element.\<close>

lemma dict_get_Inr: "(dict_get d k = Inr v) = (d k = Some v)"
  by (simp add: dict_get_def split: option.splits)

lemma meta_conv_absent: "meta k = None \<Longrightarrow> meta_conv conv meta k = Inr v \<Longrightarrow> v = None"
  by (simp add: meta_conv_def)

lemma init_fields:
  assumes "OSMElement_init X tg meta t n m f c = Inr el"
  shows "xml_filter el = f"
    and "\<exists>prefix. map_of OSM_ELEMENT_PREFIX tg = Some prefix \<and>
           basegroup el = prefix @ str_opt_int (osm_id el)"
    and "meta ''id'' = None \<Longrightarrow> osm_id el = None"
proof -
  from assms obtain v_id v_changeset v_userid v_lat v_lon prefix where
    id: "meta_conv (int_of X) meta ''id'' = Inr v_id" and
    pre: "dict_get (map_of OSM_ELEMENT_PREFIX) tg = Inr prefix" and
    el: "el = \<lparr>basegroup = prefix @ str_opt_int v_id, tag = tg, el_osm_tags = t,
            el_osm_nds = n, el_osm_members = m, xml_filter = f, tagcaster = c,
            osm_id = v_id, changeset = v_changeset, timestamp = meta ''timestamp'',
            user = meta ''user'', userid = v_userid, version = meta ''version'',
            lat = v_lat, lon = v_lon\<rparr>"
    unfolding OSMElement_init_def bind_err_Inr by blast
  show "xml_filter el = f" by (simp add: el)
  show "\<exists>prefix. map_of OSM_ELEMENT_PREFIX tg = Some prefix \<and>
           basegroup el = prefix @ str_opt_int (osm_id el)"
    using pre by (simp add: el dict_get_Inr)
  show "osm_id el = None" if "meta ''id'' = None"
    using meta_conv_absent [OF that id] by (simp add: el)
qed

text \<open>
  Rendering either returns lines that start with the subject, or fails with the
  \<^verbatim>\<open>KeyError\<close> of a member type that has no prefix.
\<close>

lemma ttl_members_error: "ttl_members ms = Inl e \<Longrightarrow> e = KeyError"
proof (induction ms arbitrary: e)
  case Nil
  then show ?case by simp
next
  case (Cons m rest)
  obtain m_type m_ref m_role where m: "m = (m_type, m_ref, m_role)" by (cases m)
  show ?case
  proof (cases "map_of OSM_ELEMENT_PREFIX m_type")
    case None
    with Cons.prems m show ?thesis by (simp add: bind_err_def dict_get_def)
  next
    case (Some prefix)
    show ?thesis
    proof (cases "ttl_members rest")
      case (Inl e')
      with Cons.prems m Some have "e = e'" by (simp add: bind_err_def dict_get_def)
      with Cons.IH [OF Inl] show ?thesis by simp
    next
      case (Inr parts)
      with Cons.prems m Some show ?thesis by (simp add: bind_err_def dict_get_def)
    qed
  qed
qed

lemma to_ttl_shape:
  "(\<exists>rest. to_ttl X el = Inr (basegroup el # rest)) \<or> to_ttl X el = Inl KeyError"
proof (cases "list_bool (el_osm_members el)")
  case False
  then show ?thesis by (simp add: to_ttl_def bind_err_def)
next
  case True
  show ?thesis
  proof (cases "ttl_members (the (el_osm_members el))")
    case (Inl e)
    with ttl_members_error [OF Inl] True show ?thesis by (simp add: to_ttl_def bind_err_def)
  next
    case (Inr parts)
    with True show ?thesis by (simp add: to_ttl_def bind_err_def)
  qed
qed

text \<open>
  The constructor stores the member list it is given, and rendering fails exactly
  when that list names a member type without a prefix: the lookup
  \<^verbatim>\<open>OSM_ELEMENT_PREFIX[_type]\<close> is the only place of \<^verbatim>\<open>to_ttl\<close> that can raise.
\<close>

lemma init_members:
  assumes "OSMElement_init X tg meta t n m f c = Inr el"
  shows "el_osm_members el = m"
proof -
  from assms obtain v_id v_changeset v_userid v_lat v_lon prefix where
    el: "el = \<lparr>basegroup = prefix @ str_opt_int v_id, tag = tg, el_osm_tags = t,
            el_osm_nds = n, el_osm_members = m, xml_filter = f, tagcaster = c,
            osm_id = v_id, changeset = v_changeset, timestamp = meta ''timestamp'',
            user = meta ''user'', userid = v_userid, version = meta ''version'',
            lat = v_lat, lon = v_lon\<rparr>"
    unfolding OSMElement_init_def bind_err_Inr by blast
  show ?thesis by (simp add: el)
qed

lemma ttl_members_known:
  "\<forall>mem \<in> set ms. map_of OSM_ELEMENT_PREFIX (fst mem) \<noteq> None \<Longrightarrow>
   \<exists>parts. ttl_members ms = Inr parts"
proof (induction ms)
  case Nil
  then show ?case by simp
next
  case (Cons mem rest)
  obtain m_type m_ref m_role where mem: "mem = (m_type, m_ref, m_role)" by (cases mem)
  from Cons.prems mem obtain prefix where p: "map_of OSM_ELEMENT_PREFIX m_type = Some prefix"
    by auto
  from Cons.prems have "\<forall>mem \<in> set rest. map_of OSM_ELEMENT_PREFIX (fst mem) \<noteq> None"
    by simp
  from Cons.IH [OF this] obtain parts where "ttl_members rest = Inr parts" by blast
  with mem p show ?case by (simp add: bind_err_def dict_get_def)
qed

lemma ttl_members_unknown:
  "\<exists>mem \<in> set ms. map_of OSM_ELEMENT_PREFIX (fst mem) = None \<Longrightarrow>
   ttl_members ms = Inl KeyError"
proof (induction ms)
  case Nil
  then show ?case by simp
next
  case (Cons mem rest)
  obtain m_type m_ref m_role where mem: "mem = (m_type, m_ref, m_role)" by (cases mem)
  show ?case
  proof (cases "map_of OSM_ELEMENT_PREFIX m_type")
    case None
    with mem show ?thesis by (simp add: bind_err_def dict_get_def)
  next
    case (Some prefix)
    with Cons.prems mem have "\<exists>mem \<in> set rest. map_of OSM_ELEMENT_PREFIX (fst mem) = None"
      by auto
    from Cons.IH [OF this] mem Some show ?thesis by (simp add: bind_err_def dict_get_def)
  qed
qed

lemma to_ttl_unknown_member:
  assumes "el_osm_members el = Some ms"
    and "\<exists>mem \<in> set ms. map_of OSM_ELEMENT_PREFIX (fst mem) = None"
  shows "to_ttl X el = Inl KeyError"
proof -
  from assms(2) have "ms \<noteq> []" by auto
  with assms(1) ttl_members_unknown [OF assms(2)] show ?thesis
    by (simp add: to_ttl_def bind_err_def)
qed

lemma to_ttl_known_members:
  assumes "\<not> (\<exists>ms. el_osm_members el = Some ms \<and>
              (\<exists>mem \<in> set ms. map_of OSM_ELEMENT_PREFIX (fst mem) = None))"
  shows "\<exists>rest. to_ttl X el = Inr (basegroup el # rest)"
proof (cases "list_bool (el_osm_members el)")
  case False
  then show ?thesis by (simp add: to_ttl_def bind_err_def)
next
  case True
  then obtain ms where ms: "el_osm_members el = Some ms" by (cases "el_osm_members el") auto
  with assms have "\<forall>mem \<in> set ms. map_of OSM_ELEMENT_PREFIX (fst mem) \<noteq> None" by auto
  from ttl_members_known [OF this] obtain parts where "ttl_members ms = Inr parts" by blast
  with True ms show ?thesis by (simp add: to_ttl_def bind_err_def)
qed

text \<open>
  Claim C7, as amended. An element constructed from attributes without \<^verbatim>\<open>id\<close> stores
  \<^verbatim>\<open>None\<close> as its id and has the subject \<^verbatim>\<open><kind-prefix>None\<close>. Rendering it raises
  nothing on account of the missing id: when no member names a type without a prefix
  (so for every node, every way and every relation with well-typed members) it returns
  lines whose first is that subject, and otherwise it raises the \<^verbatim>\<open>KeyError\<close> of that
  member's type, as it would with an id.
\<close>

theorem missing_id_renders_None:
  assumes "meta ''id'' = None" and "OSMElement_init X tg meta t n m f c = Inr el"
  shows "osm_id el = None \<and>
         (\<exists>prefix. map_of OSM_ELEMENT_PREFIX tg = Some prefix \<and> basegroup el = prefix @ ''None'') \<and>
         (if \<exists>ms. m = Some ms \<and> (\<exists>mem \<in> set ms. map_of OSM_ELEMENT_PREFIX (fst mem) = None)
          then to_ttl X el = Inl KeyError
          else \<exists>rest. to_ttl X el = Inr (basegroup el # rest))"
proof (intro conjI)
  show none: "osm_id el = None"
    by (rule init_fields(3) [OF assms(2) assms(1)])
  show "\<exists>prefix. map_of OSM_ELEMENT_PREFIX tg = Some prefix \<and> basegroup el = prefix @ ''None''"
    using init_fields(2) [OF assms(2)] none by simp
  have mem: "el_osm_members el = m" by (rule init_members [OF assms(2)])
  show "if \<exists>ms. m = Some ms \<and> (\<exists>mem \<in> set ms. map_of OSM_ELEMENT_PREFIX (fst mem) = None)
        then to_ttl X el = Inl KeyError
        else \<exists>rest. to_ttl X el = Inr (basegroup el # rest)"
  proof (cases "\<exists>ms. m = Some ms \<and> (\<exists>mem \<in> set ms. map_of OSM_ELEMENT_PREFIX (fst mem) = None)")
    case True
    then obtain ms where "el_osm_members el = Some ms"
      and "\<exists>mem \<in> set ms. map_of OSM_ELEMENT_PREFIX (fst mem) = None"
      using mem by auto
    from to_ttl_unknown_member [OF this] show ?thesis by (simp only: if_P [OF True])
  next
    case False
    with mem have "\<not> (\<exists>ms. el_osm_members el = Some ms \<and>
              (\<exists>mem \<in> set ms. map_of OSM_ELEMENT_PREFIX (fst mem) = None))" by simp
    from to_ttl_known_members [OF this] show ?thesis by (simp only: if_not_P [OF False])
  qed
qed

theorem missing_id_renders_None_witness:
  "OSMElement_init sample_externals ''node'' (map_of [(''version'', ''3'')]) None None None None None =
     Inr \<lparr>basegroup = ''osmnode:None'', tag = ''node'', el_osm_tags = None, el_osm_nds = None,
          el_osm_members = None, xml_filter = None, tagcaster = None, osm_id = None,
          changeset = None, timestamp = None, user = None, userid = None, version = Some ''3'',
          lat = None, lon = None\<rparr> \<and>
   to_ttl sample_externals
      \<lparr>basegroup = ''osmnode:None'', tag = ''node'', el_osm_tags = None, el_osm_nds = None,
          el_osm_members = None, xml_filter = None, tagcaster = None, osm_id = None,
          changeset = None, timestamp = None, user = None, userid = None, version = Some ''3'',
          lat = None, lon = None\<rparr> =
     Inr [''osmnode:None'', ''    osmm:type \"n\" ;'', ''    osmm:version 3 ;'', ''.''] \<and>
   OSMElement_init sample_externals ''relation'' Map.empty None None
       (Some [(''way'', 1, Some ''outer'')]) None None =
     Inr \<lparr>basegroup = ''osmrel:None'', tag = ''relation'', el_osm_tags = None, el_osm_nds = None,
          el_osm_members = Some [(''way'', 1, Some ''outer'')], xml_filter = None,
          tagcaster = None, osm_id = None, changeset = None, timestamp = None, user = None,
          userid = None, version = None, lat = None, lon = None\<rparr> \<and>
   to_ttl sample_externals
      \<lparr>basegroup = ''osmrel:None'', tag = ''relation'', el_osm_tags = None, el_osm_nds = None,
          el_osm_members = Some [(''way'', 1, Some ''outer'')], xml_filter = None,
          tagcaster = None, osm_id = None, changeset = None, timestamp = None, user = None,
          userid = None, version = None, lat = None, lon = None\<rparr> =
     Inr [''osmrel:None'', ''    osmx:hasmembers ([osmx:hasroleouter osmway:1]) ;'', ''.''] \<and>
   OSMElement_init sample_externals ''relation'' Map.empty None None
       (Some [(''area'', 1, None)]) None None =
     Inr \<lparr>basegroup = ''osmrel:None'', tag = ''relation'', el_osm_tags = None, el_osm_nds = None,
          el_osm_members = Some [(''area'', 1, None)], xml_filter = None,
          tagcaster = None, osm_id = None, changeset = None, timestamp = None, user = None,
          userid = None, version = None, lat = None, lon = None\<rparr> \<and>
   to_ttl sample_externals
      \<lparr>basegroup = ''osmrel:None'', tag = ''relation'', el_osm_tags = None, el_osm_nds = None,
          el_osm_members = Some [(''area'', 1, None)], xml_filter = None,
          tagcaster = None, osm_id = None, changeset = None, timestamp = None, user = None,
          userid = None, version = None, lat = None, lon = None\<rparr> =
     Inl KeyError"
proof -
  have c1: "OSMElement_init sample_externals ''node'' (map_of [(''version'', ''3'')])
             None None None None None =
     Inr \<lparr>basegroup = ''osmnode:None'', tag = ''node'', el_osm_tags = None, el_osm_nds = None,
          el_osm_members = None, xml_filter = None, tagcaster = None, osm_id = None,
          changeset = None, timestamp = None, user = None, userid = None, version = Some ''3'',
          lat = None, lon = None\<rparr>"
    by (simp add: run_simps)
  have c2: "OSMElement_init sample_externals ''relation'' Map.empty None None
       (Some [(''way'', 1, Some ''outer'')]) None None =
     Inr \<lparr>basegroup = ''osmrel:None'', tag = ''relation'', el_osm_tags = None, el_osm_nds = None,
          el_osm_members = Some [(''way'', 1, Some ''outer'')], xml_filter = None,
          tagcaster = None, osm_id = None, changeset = None, timestamp = None, user = None,
          userid = None, version = None, lat = None, lon = None\<rparr>"
    by (simp add: run_simps)
  have c3: "OSMElement_init sample_externals ''relation'' Map.empty None None
       (Some [(''area'', 1, None)]) None None =
     Inr \<lparr>basegroup = ''osmrel:None'', tag = ''relation'', el_osm_tags = None, el_osm_nds = None,
          el_osm_members = Some [(''area'', 1, None)], xml_filter = None,
          tagcaster = None, osm_id = None, changeset = None, timestamp = None, user = None,
          userid = None, version = None, lat = None, lon = None\<rparr>"
    by (simp add: run_simps)
  have a1: "map_of [(''version'', ''3'')] ''id'' = None" by simp
  have a2: "(Map.empty :: string \<rightharpoonup> string) ''id'' = None" by simp
  have r1: "to_ttl sample_externals
      \<lparr>basegroup = ''osmnode:None'', tag = ''node'', el_osm_tags = None, el_osm_nds = None,
          el_osm_members = None, xml_filter = None, tagcaster = None, osm_id = None,
          changeset = None, timestamp = None, user = None, userid = None, version = Some ''3'',
          lat = None, lon = None\<rparr> =
     Inr [''osmnode:None'', ''    osmm:type \"n\" ;'', ''    osmm:version 3 ;'', ''.'']"
    using missing_id_renders_None [OF a1 c1] by (simp add: run_simps)
  have r2: "to_ttl sample_externals
      \<lparr>basegroup = ''osmrel:None'', tag = ''relation'', el_osm_tags = None, el_osm_nds = None,
          el_osm_members = Some [(''way'', 1, Some ''outer'')], xml_filter = None,
          tagcaster = None, osm_id = None, changeset = None, timestamp = None, user = None,
          userid = None, version = None, lat = None, lon = None\<rparr> =
     Inr [''osmrel:None'', ''    osmx:hasmembers ([osmx:hasroleouter osmway:1]) ;'', ''.'']"
    using missing_id_renders_None [OF a2 c2] by (simp add: run_simps)
  have r3: "to_ttl sample_externals
      \<lparr>basegroup = ''osmrel:None'', tag = ''relation'', el_osm_tags = None, el_osm_nds = None,
          el_osm_members = Some [(''area'', 1, None)], xml_filter = None,
          tagcaster = None, osm_id = None, changeset = None, timestamp = None, user = None,
          userid = None, version = None, lat = None, lon = None\<rparr> =
     Inl KeyError"
    using missing_id_renders_None [OF a2 c3] by (simp add: OSM_ELEMENT_PREFIX_def)
  from c1 r1 c2 r2 c3 r3 show ?thesis by (intro conjI)
qed

text \<open>
  Claim C7 as stated fails: the node conversion of a document whose node has no
  \<^verbatim>\<open>id\<close> returns a Turtle text with the subject line \<^verbatim>\<open>osmnode:None\<close> and no error.
\<close>

theorem missing_id_no_error_counterexample:
  "osmrdf_node_xml2ttl sample_externals ''<osm><node/></osm>'' =
   Inr (str_join [CHR 0x0A]
     (RDF_TURTLE_PREFIXES @ ['''', ''osmnode:None'', ''    osmm:type \"n\" ;'', ''.'', '''']))"
  by (simp add: run_simps)

text \<open>
  Claim C10. The constructor accepts \<^verbatim>\<open>xml_filter = None\<close> (its default) and builds the
  element; \<^verbatim>\<open>can_output\<close> on that element does not answer \<^verbatim>\<open>True\<close>, it raises
  \<^verbatim>\<open>AttributeError\<close>.
\<close>

theorem can_output_needs_filter:
  "OSMElement_init X tg meta t n m None c = Inr el \<Longrightarrow> can_output el = Inl AttributeError"
  using init_fields(1) [of X tg meta t n m None c el] by (simp add: can_output_def)

theorem can_output_needs_filter_witness:
  "OSMElement_init sample_externals ''way'' (map_of [(''id'', ''1'')]) None None None None None =
     Inr \<lparr>basegroup = ''osmway:1'', tag = ''way'', el_osm_tags = None, el_osm_nds = None,
          el_osm_members = None, xml_filter = None, tagcaster = None, osm_id = Some 1,
          changeset = None, timestamp = None, user = None, userid = None, version = None,
          lat = None, lon = None\<rparr> \<and>
   can_output
      \<lparr>basegroup = ''osmway:1'', tag = ''way'', el_osm_tags = None, el_osm_nds = None,
          el_osm_members = None, xml_filter = None, tagcaster = None, osm_id = Some 1,
          changeset = None, timestamp = None, user = None, userid = None, version = None,
          lat = None, lon = None\<rparr> = Inl AttributeError"
proof -
  have c: "OSMElement_init sample_externals ''way'' (map_of [(''id'', ''1'')])
             None None None None None =
     Inr \<lparr>basegroup = ''osmway:1'', tag = ''way'', el_osm_tags = None, el_osm_nds = None,
          el_osm_members = None, xml_filter = None, tagcaster = None, osm_id = Some 1,
          changeset = None, timestamp = None, user = None, userid = None, version = None,
          lat = None, lon = None\<rparr>"
    by (simp add: run_simps)
  show ?thesis
    using can_output_needs_filter [OF c] c by simp
qed

text \<open>
  A latitude or longitude of 0.0 is rendered as a missing one, for every element.
\<close>

lemma to_ttl_zero_lat: "to_ttl X (el\<lparr>lat := Some (Finite 0)\<rparr>) = to_ttl X (el\<lparr>lat := None\<rparr>)"
  by (simp add: to_ttl_def split del: if_split cong: if_cong)

lemma to_ttl_zero_lon: "to_ttl X (el\<lparr>lon := Some (Finite 0)\<rparr>) = to_ttl X (el\<lparr>lon := None\<rparr>)"
  by (simp add: to_ttl_def split del: if_split cong: if_cong)

text \<open>
  Claim C4, at an input where the code leaves it. A node with \<^verbatim>\<open>lat="0.0"\<close> and
  \<^verbatim>\<open>lon="2.0"\<close> has both coordinates, and its block has no \<^verbatim>\<open>osmm:loc\<close> line:
  \<^verbatim>\<open>if self.lat and self.lon\<close> reads the float 0.0 as false. The same node at
  \<^verbatim>\<open>lat="1.0"\<close> gets the line, latitude first.
\<close>

theorem zero_latitude_drops_loc:
  "osmrdf_node_xml2ttl sample_externals ''<osm><node id=\"1\" lat=\"0.0\" lon=\"2.0\"/></osm>'' =
   Inr (str_join [CHR 0x0A]
     (RDF_TURTLE_PREFIXES @ ['''', ''osmnode:1'', ''    osmm:type \"n\" ;'', ''.'', ''''])) \<and>
   osmrdf_node_xml2ttl sample_externals ''<osm><node id=\"1\" lat=\"1.0\" lon=\"2.0\"/></osm>'' =
   Inr (str_join [CHR 0x0A]
     (RDF_TURTLE_PREFIXES @ ['''', ''osmnode:1'',
        ''    osmm:loc \"Point(1.0 2.0)\"^^geo:wktLiteral ;'', ''    osmm:type \"n\" ;'', ''.'', '''']))"
  by (simp add: run_simps)

text \<open>
  Claim C5, at an input where the code leaves it. The type table is keyed by
  \<^verbatim>\<open>rel\<close>, the element's tag is \<^verbatim>\<open>relation\<close> (the key of the prefix table), so a
  relation is rendered without an \<^verbatim>\<open>osmm:type\<close> line; a way and a node get theirs.
\<close>

theorem relation_has_no_type_line:
  "map_of OSM_ELEMENT_TYPE_LITERAL ''relation'' = None \<and>
   bind_err (OSMElement_init sample_externals ''relation'' (map_of [(''id'', ''1'')])
               None None None None None) (to_ttl sample_externals) =
   Inr [''osmrel:1'', ''.''] \<and>
   bind_err (OSMElement_init sample_externals ''way'' (map_of [(''id'', ''1'')])
               None None None None None) (to_ttl sample_externals) =
   Inr [''osmway:1'', ''    osmm:type \"w\" ;'', ''.''] \<and>
   bind_err (OSMElement_init sample_externals ''node'' (map_of [(''id'', ''1'')])
               None None None None None) (to_ttl sample_externals) =
   Inr [''osmnode:1'', ''    osmm:type \"n\" ;'', ''.'']"
  by (simp add: run_simps)

text \<open>
  The three conversions, for every input: the way conversion is the node conversion;
  a text the node conversion returns is the prefix lines, an empty line, a block that
  is not empty and an empty line; and the relation conversion returns the node
  conversion's text with one more line, the input behind \<^verbatim>\<open>#\<close>.
\<close>

lemma str_join_snoc: "xs \<noteq> [] \<Longrightarrow> str_join sep (xs @ [x]) = str_join sep xs @ sep @ x"
  by (induction sep xs rule: str_join.induct) auto

lemma xml2ttl_output_nonempty: "xml2ttl_output X d = Inr out \<Longrightarrow> out \<noteq> []"
  by (auto simp: xml2ttl_output_def bind_err_Inr)

lemma relation_mode_is_node_mode_plus_input:
  "osmrdf_relation_xml2ttl X d =
   bind_err (osmrdf_node_xml2ttl X d) (\<lambda>text.
     Inr (text @ [CHR 0x0A] @ ''# '' @ str_join ([CHR 0x0A] @ ''# '') (str_split d (CHR 0x0A))))"
proof (cases "xml2ttl_output X d")
  case (Inl e)
  then show ?thesis
    by (simp add: osmrdf_relation_xml2ttl_def osmrdf_node_xml2ttl_def bind_err_def)
next
  case (Inr out)
  from xml2ttl_output_nonempty [OF Inr] Inr show ?thesis
    by (simp add: osmrdf_relation_xml2ttl_def osmrdf_node_xml2ttl_def bind_err_def str_join_snoc)
qed

lemma way_mode_is_node_mode: "osmrdf_way_xml2ttl X d = osmrdf_node_xml2ttl X d"
  by (simp add: osmrdf_way_xml2ttl_def osmrdf_node_xml2ttl_def)

lemma node_mode_shape:
  "osmrdf_node_xml2ttl X d = Inr text \<Longrightarrow>
   \<exists>block. block \<noteq> [] \<and> text = str_join [CHR 0x0A] (RDF_TURTLE_PREFIXES @ [''''] @ block @ [''''])"
proof -
  assume a: "osmrdf_node_xml2ttl X d = Inr text"
  then obtain osmnode ttl where
    t: "(case osmnode of None \<Rightarrow> Inl AttributeError | Some el \<Rightarrow> to_ttl X el) = Inr ttl" and
    tx: "text = str_join [CHR 0x0A] (RDF_TURTLE_PREFIXES @ [''''] @ ttl @ [''''])"
    by (auto simp: osmrdf_node_xml2ttl_def xml2ttl_output_def bind_err_Inr)
  from t obtain el where "to_ttl X el = Inr ttl" by (cases osmnode) auto
  with to_ttl_shape [of X el] have "ttl \<noteq> []" by auto
  with tx show ?thesis by blast
qed

text \<open>
  Claim C6, at an input where the code leaves it. The relation conversion ends its
  output with the input document behind \<^verbatim>\<open>#\<close>, after the blank line that follows the
  block; the node and way conversions end with that blank line.
\<close>

theorem relation_mode_appends_input:
  "osmrdf_relation_xml2ttl sample_externals ''<osm><relation id=\"1\"/></osm>'' =
   Inr (str_join [CHR 0x0A]
     (RDF_TURTLE_PREFIXES @ ['''', ''osmrel:1'', ''.'', '''',
        ''# <osm><relation id=\"1\"/></osm>'']))"
  by (simp add: run_simps)

end
